theory Spec2Isabelle
  imports Main
begin

section \<open>Text\<close>

text \<open>
  A Python \<open>str\<close> is a sequence of Unicode code points, and the regular expression of
  \<open>clean_markdown\<close> works on code points. A text is therefore a list of code points;
  \<open>ascii\<close> embeds the printable part of a literal, and the code points outside it
  (emoji, newline, apostrophe, backquote, backslash) are written as numbers.
\<close>

type_synonym str = "nat list"

definition ascii :: "string \<Rightarrow> str" where
  "ascii s = map of_char s"

text \<open>\<open>str(n)\<close> of a Python integer: decimal digits, with a minus sign when negative.\<close>

fun digits :: "nat \<Rightarrow> str" where
  "digits n = (if n < 10 then [48 + n] else digits (n div 10) @ [48 + n mod 10])"

declare digits.simps [simp del]

definition str_int :: "int \<Rightarrow> str" where
  "str_int i = (if i < 0 then 45 # digits (nat (- i)) else digits (nat i))"

text \<open>The number a decimal string stands for: the inverse of \<open>digits\<close>.\<close>

definition num_of :: "str \<Rightarrow> nat" where
  "num_of s = foldl (\<lambda>a c. 10 * a + (c - 48)) 0 s"

section \<open>clean\_markdown\<close>

text \<open>
  \<^verbatim>\<open>escape_chars = r'_*[]()~`>#+-=|{}.!'\<close>: the eighteen characters MarkdownV2 reserves.
  \<open>re.escape\<close> only protects them inside the character class, so the class matches
  exactly these characters.
\<close>

definition escape_chars :: str where
  "escape_chars = ascii ''_*[]()~'' @ [96] @ ascii ''>#+-=|{}.!''"

definition backslash :: nat where
  "backslash = 92"

text \<open>The replacement function of the substitution: \<^verbatim>\<open>f'\\{char}'\<close>.\<close>

definition escape_char :: "nat \<Rightarrow> str" where
  "escape_char char = [backslash, char]"

text \<open>
  \<^verbatim>\<open>re.sub('(?<!\\\\)([...])', escape_char, text)\<close>: the matches are single characters,
  found from left to right; a character matches when it is in the class and the character
  before it in the \<^emph>\<open>input\<close> is not a backslash (the negative look-behind; at the start
  of the text there is no character before). Everything else is copied. The flag says
  whether the previous input character was a backslash.
\<close>

fun re_sub :: "bool \<Rightarrow> str \<Rightarrow> str" where
  "re_sub after_backslash [] = []"
| "re_sub after_backslash (c # cs) =
     (if c \<in> set escape_chars \<and> \<not> after_backslash then escape_char c else [c])
       @ re_sub (c = backslash) cs"

definition clean_markdown :: "str \<Rightarrow> str" where
  "clean_markdown text = re_sub False text"

section \<open>format\_message\<close>

text \<open>The six literals of \<open>format_message\<close>, in the order of its branches.\<close>

definition text_today :: str where
  "text_today =
     [0x1F6A8, 0x1F6A8, 0x1F6A8] @ ascii '' TODAY IS THE DEADLINE! '' @
     [0x1F6A8, 0x1F6A8, 0x1F6A8, 10, 10, 0x1F525] @ ascii '' DROP EVERYTHING AND FINISH! '' @
     [0x1F525, 10, 0x25AA, 0xFE0F] @ ascii '' No procrastination!'' @ [10, 0x25AA, 0xFE0F] @
     ascii '' No excuses!'' @ [10, 0x25AA, 0xFE0F] @ ascii '' Just GET IT DONE! '' @ [0x2705]"

definition text_one_day :: str where
  "text_one_day =
     [0x26A0, 0xFE0F, 0x26A0, 0xFE0F] @ ascii '' ONE DAY LEFT! '' @
     [0x26A0, 0xFE0F, 0x26A0, 0xFE0F, 10, 10, 0x23F0] @ ascii '' FINAL PUSH! '' @
     [0x23F0, 10, 0x25AA, 0xFE0F] @ ascii '' Review everything!'' @ [10, 0x25AA, 0xFE0F] @
     ascii '' Fix last-minute issues!'' @ [10, 0x25AA, 0xFE0F] @ ascii '' You'' @ [39] @
     ascii ''re almost there! '' @ [0x1F4AA]"

definition text_le_3 :: "int \<Rightarrow> str" where
  "text_le_3 days =
     [0x1F514] @ ascii '' '' @ str_int days @ ascii '' DAYS LEFT! '' @
     [0x1F514, 10, 10, 0x2757] @
     ascii '' Urgent Action Needed! '' @ [0x2757, 10, 0x25AA, 0xFE0F] @
     ascii '' Prioritize critical tasks!'' @ [10, 0x25AA, 0xFE0F] @
     ascii '' No distractions!'' @ [10, 0x25AA, 0xFE0F] @ ascii '' Stay focused! '' @ [0x1F3AF]"

definition text_le_7 :: "int \<Rightarrow> str" where
  "text_le_7 days =
     [0x1F525, 0x1F525, 0x1F525] @ ascii '' **'' @ str_int days @ ascii '' DAYS LEFT!** '' @
     [0x1F525, 0x1F525, 0x1F525, 10, 10, 0x1F6A8, 0x1F6A8] @
     ascii '' **TIME IS RUNNING OUT!** '' @ [0x1F6A8, 0x1F6A8, 10, 0x26A0, 0xFE0F] @
     ascii '' **NO ROOM FOR MISTAKES!** '' @ [0x26A0, 0xFE0F, 10, 0x1F6D1] @
     ascii '' **FINAL PUSH!** '' @ [0x1F6D1, 10, 0x1F525] @ ascii '' **WORK FAST!** '' @
     [0x1F525] @ ascii '' **WORK SMART!** '' @ [0x1F525] @ ascii '' **NO EXCUSES!** '' @
     [0x1F680, 10, 0x23F3] @ ascii '' **EVERY SECOND COUNTS!** '' @ [0x23F3]"

definition text_le_14 :: "int \<Rightarrow> str" where
  "text_le_14 days =
     [0x26A0, 0xFE0F, 0x26A0, 0xFE0F, 0x26A0, 0xFE0F] @ ascii '' **'' @ str_int days @
     ascii '' DAYS REMAINING!** '' @
     [0x26A0, 0xFE0F, 0x26A0, 0xFE0F, 0x26A0, 0xFE0F, 10, 10, 0x1F6A8] @
     ascii '' **DANGER ZONE!** '' @ [0x1F6A8, 10, 0x1F525] @ ascii '' **DON'' @ [39] @
     ascii ''T GET COMPLACENT!** '' @ [0x1F525, 10, 0x23F3] @
     ascii '' **THE CLOCK IS MERCILESS!** '' @ [0x23F3, 10, 0x1F480] @
     ascii '' **WASTE A DAY, REGRET IT FOREVER!** '' @ [0x1F480, 10, 0x1F680] @
     ascii '' **FULL SPEED AHEAD!** '' @ [0x1F680]"

definition text_else :: "int \<Rightarrow> str" where
  "text_else days =
     [0x1F7E5, 0x1F7E5, 0x1F7E5] @ ascii '' **'' @ str_int days @ ascii '' DAYS LEFT!** '' @
     [0x1F7E5, 0x1F7E5, 0x1F7E5, 10, 10, 0x1F6A8] @ ascii '' **RED ALERT!** '' @
     [0x1F6A8, 10, 0x1F525] @ ascii '' **THE DEADLINE IS WATCHING YOU!** '' @
     [0x1F525, 10, 0x1F480] @ ascii '' **EVERY HOUR YOU WASTE BRINGS DOOM!** '' @
     [0x1F480, 10, 0x23F3] @ ascii '' **NO SECOND CHANCES!** '' @ [0x23F3, 10, 0x1F6D1] @
     ascii '' **START WORKING NOW OR SUFFER LATER!** '' @ [0x1F6D1]"

definition format_message :: "int \<Rightarrow> str" where
  "format_message days =
     (if days = 0 then clean_markdown text_today
      else if days = 1 then clean_markdown text_one_day
      else if days \<le> 3 then clean_markdown (text_le_3 days)
      else if days \<le> 7 then clean_markdown (text_le_7 days)
      else if days \<le> 14 then clean_markdown (text_le_14 days)
      else clean_markdown (text_else days))"

section \<open>Dates\<close>

text \<open>
  \<open>datetime.date\<close>: a calendar date with the proleptic Gregorian ordinal the library
  computes for it. The difference of two dates is the difference of their ordinals
  (\<open>(a - b).days\<close>), and \<open>str\<close> of a date is its ISO form \<^verbatim>\<open>%04d-%02d-%02d\<close>
  (the fields of a date are positive, so padding with zeros on the left is all there is
  to it). The table of month lengths is read at the month's position, which lies in the
  table for every date the constructor accepts.
\<close>

record date =
  year :: int
  month :: int
  day :: int

definition is_leap :: "int \<Rightarrow> bool" where
  "is_leap y \<longleftrightarrow> y mod 4 = 0 \<and> (y mod 100 \<noteq> 0 \<or> y mod 400 = 0)"

definition DAYS_IN_MONTH :: "int list" where
  "DAYS_IN_MONTH = [31, 28, 31, 30, 31, 30, 31, 31, 30, 31, 30, 31]"

definition days_in_month :: "int \<Rightarrow> int \<Rightarrow> int" where
  "days_in_month y m =
     (if m = 2 \<and> is_leap y then 29 else sum_list (take 1 (drop (nat (m - 1)) DAYS_IN_MONTH)))"

definition days_before_year :: "int \<Rightarrow> int" where
  "days_before_year y = (y - 1) * 365 + (y - 1) div 4 - (y - 1) div 100 + (y - 1) div 400"

definition days_before_month :: "int \<Rightarrow> int \<Rightarrow> int" where
  "days_before_month y m =
     sum_list (take (nat (m - 1)) DAYS_IN_MONTH) + (if m > 2 \<and> is_leap y then 1 else 0)"

definition toordinal :: "date \<Rightarrow> int" where
  "toordinal d = days_before_year (year d) + days_before_month (year d) (month d) + day d"

definition days_between :: "date \<Rightarrow> date \<Rightarrow> int" where
  "days_between a b = toordinal a - toordinal b"

definition zfill :: "nat \<Rightarrow> str \<Rightarrow> str" where
  "zfill w s = replicate (w - length s) 48 @ s"

definition str_date :: "date \<Rightarrow> str" where
  "str_date d =
     zfill 4 (str_int (year d)) @ [45] @ zfill 2 (str_int (month d)) @ [45]
       @ zfill 2 (str_int (day d))"

text \<open>
  The constructor \<open>date(year, month, day)\<close> raises \<open>ValueError\<close> outside the calendar.
\<close>

definition make_date :: "int \<Rightarrow> int \<Rightarrow> int \<Rightarrow> date option" where
  "make_date y m d =
     (if 1 \<le> y \<and> y \<le> 9999 \<and> 1 \<le> m \<and> m \<le> 12 \<and> 1 \<le> d \<and> d \<le> days_in_month y m
      then Some \<lparr>year = y, month = m, day = d\<rparr> else None)"

text \<open>
  \<^verbatim>\<open>datetime.strptime(text, "%Y-%m-%d").date()\<close> on ASCII digits, \<open>None\<close> for
  \<open>ValueError\<close>. The library matches the pattern
  \<^verbatim>\<open>(\d\d\d\d)-(1[0-2]|0[1-9]|[1-9])-(3[0-1]|[1-2]\d|0[1-9]|[1-9]| [1-9])\<close> at the start
  of the text and rejects a text with characters left over. The library's \<^verbatim>\<open>\d\<close> also
  accepts the decimal digits of other scripts; such texts are outside this parser, which
  rejects them. The handlers take the parser from their environment, and every general
  statement holds for any parser; this one only serves to run them on the ASCII sample
  texts.
\<close>

definition is_digit :: "nat \<Rightarrow> bool" where
  "is_digit c \<longleftrightarrow> 48 \<le> c \<and> c \<le> 57"

definition digit_val :: "nat \<Rightarrow> int" where
  "digit_val c = int c - 48"

fun parse_day :: "str \<Rightarrow> int option" where
  "parse_day [a, b] =
     (if a = 51 \<and> (b = 48 \<or> b = 49) then Some (30 + digit_val b)
      else if (a = 49 \<or> a = 50) \<and> is_digit b then Some (10 * digit_val a + digit_val b)
      else if (a = 48 \<or> a = 32) \<and> is_digit b \<and> b \<noteq> 48 then Some (digit_val b)
      else None)"
| "parse_day [a] = (if is_digit a \<and> a \<noteq> 48 then Some (digit_val a) else None)"
| "parse_day _ = None"

fun parse_month :: "str \<Rightarrow> (int \<times> str) option" where
  "parse_month (a # b # c # rest) =
     (if a = 49 \<and> (b = 48 \<or> b = 49 \<or> b = 50) \<and> c = 45 then Some (10 + digit_val b, rest)
      else if a = 48 \<and> is_digit b \<and> b \<noteq> 48 \<and> c = 45 then Some (digit_val b, rest)
      else if is_digit a \<and> a \<noteq> 48 \<and> b = 45 then Some (digit_val a, c # rest)
      else None)"
| "parse_month _ = None"

fun strptime_ymd :: "str \<Rightarrow> date option" where
  "strptime_ymd (y1 # y2 # y3 # y4 # dash # rest) =
     (if is_digit y1 \<and> is_digit y2 \<and> is_digit y3 \<and> is_digit y4 \<and> dash = 45 then
        (case parse_month rest of
           None \<Rightarrow> None
         | Some (m, rest') \<Rightarrow>
             (case parse_day rest' of
                None \<Rightarrow> None
              | Some d \<Rightarrow>
                  make_date (1000 * digit_val y1 + 100 * digit_val y2 + 10 * digit_val y3
                              + digit_val y4) m d))
      else None)"
| "strptime_ymd _ = None"

section \<open>State, environment and outcomes\<close>

text \<open>
  The module's mutable state: the two dictionaries \<open>deadlines\<close> and \<open>scheduled_jobs\<close>, the
  jobs the \<open>AsyncIOScheduler\<close> holds, and the rows of the table \<open>deadlines\<close> behind
  \<open>db_pool\<close>. A job is known to the scheduler by its id; its function is always
  \<open>send_countdown\<close>, its trigger always the same daily cron trigger, its argument the group.
\<close>

record job =
  job_id :: str
  job_args :: int

record state =
  deadlines :: "int \<rightharpoonup> date"
  scheduled_jobs :: "int \<rightharpoonup> job"
  scheduler :: "job list"
  db :: "int \<rightharpoonup> date"

text \<open>
  What a handler cannot know: the library's date parser, the calendar day
  (\<open>date.today()\<close>; a handler is taken to run within one day), whether the database and
  the transport answer, and the bot's own user id.
\<close>

record env =
  strptime :: "str \<Rightarrow> date option"
  today :: date
  db_ok :: bool
  reply_ok :: bool
  send_ok :: bool
  bot_id :: int

datatype error = StorageError | TransportError | ConflictingIdError | JobLookupError

text \<open>
  What a handler does, in the order it does it: assignments to the two dictionaries,
  calls to the database, to the scheduler and to the transport (recorded when the call is
  made, whether or not it succeeds), and error log lines.
\<close>

datatype event =
    CacheSet int date
  | Fetchrow int
  | Upsert int date
  | JobRemove str
  | JobAdd str int
  | JobTableSet int str
  | Reply int str
  | SendMessage int str
  | LogError

record outcome =
  trace :: "event list"
  raised :: "error option"
  final :: state

text \<open>A block of statements: run in order, left at the first exception.\<close>

fun run_steps :: "(state \<Rightarrow> outcome) list \<Rightarrow> state \<Rightarrow> outcome" where
  "run_steps [] s = \<lparr>trace = [], raised = None, final = s\<rparr>"
| "run_steps (f # fs) s =
     (let r = f s in
      case raised r of
        Some e \<Rightarrow> r
      | None \<Rightarrow> (let r' = run_steps fs (final r) in r'\<lparr>trace := trace r @ trace r'\<rparr>))"

section \<open>Database access\<close>

text \<open>\<open>set_deadline_in_db\<close>: the upsert, or the driver's exception.\<close>

definition set_deadline_in_db :: "env \<Rightarrow> int \<Rightarrow> date \<Rightarrow> state \<Rightarrow> outcome" where
  "set_deadline_in_db e group_id deadline_date s =
     (if db_ok e
      then \<lparr>trace = [Upsert group_id deadline_date], raised = None,
            final = s\<lparr>db := (db s)(group_id \<mapsto> deadline_date)\<rparr>\<rparr>
      else \<lparr>trace = [Upsert group_id deadline_date], raised = Some StorageError, final = s\<rparr>)"

text \<open>\<open>get_deadline_from_db\<close>: the stored date, \<open>None\<close> without a row, or the exception.\<close>

definition get_deadline_from_db :: "env \<Rightarrow> int \<Rightarrow> state \<Rightarrow> error + date option" where
  "get_deadline_from_db e group_id s = (if db_ok e then Inr (db s group_id) else Inl StorageError)"

section \<open>Sending\<close>

definition welcome_text :: str where
  "welcome_text =
     [0x1F389] @ ascii '' Welcome to Deadline Countdown Bot! '' @ [0x1F389, 10, 10, 0x1F4C5] @
     ascii '' To get started, send me your deadline in this format:'' @ [10, 96] @
     ascii ''YYYY-MM-DD'' @ [96, 10, 10] @ ascii ''Example: '' @ [96] @ ascii ''2025-12-31'' @
     [96, 10, 10, 0x23F3] @ ascii '' I'' @ [39] @
     ascii ''ll send daily reminders to keep everyone on track! '' @ [0x1F680]"

text \<open>
  \<open>send_countdown\<close>: nothing for a group without a cached deadline; otherwise one message,
  and a failure of the transport is caught and logged.
\<close>

definition send_countdown :: "env \<Rightarrow> int \<Rightarrow> state \<Rightarrow> outcome" where
  "send_countdown e group_id s =
     (case deadlines s group_id of
        None \<Rightarrow> \<lparr>trace = [], raised = None, final = s\<rparr>
      | Some deadline \<Rightarrow>
          \<lparr>trace = SendMessage group_id (format_message (days_between deadline (today e)))
                     # (if send_ok e then [] else [LogError]),
           raised = None, final = s\<rparr>)"

definition ask_for_deadline :: "env \<Rightarrow> int \<Rightarrow> state \<Rightarrow> outcome" where
  "ask_for_deadline e group_id s =
     \<lparr>trace = SendMessage group_id (clean_markdown welcome_text)
                # (if send_ok e then [] else [LogError]),
      raised = None, final = s\<rparr>"

text \<open>\<open>update.message.reply_text\<close>: not guarded, a failure of the transport propagates.\<close>

definition reply_text :: "env \<Rightarrow> int \<Rightarrow> str \<Rightarrow> state \<Rightarrow> outcome" where
  "reply_text e chat txt s =
     \<lparr>trace = [Reply chat txt],
      raised = (if reply_ok e then None else Some TransportError), final = s\<rparr>"

section \<open>The scheduler\<close>

text \<open>
  \<open>Job.remove()\<close> removes the job with that id from the scheduler and raises
  \<open>JobLookupError\<close> when there is none; \<open>scheduler.add_job\<close> on the running scheduler
  raises \<open>ConflictingIdError\<close> when the id is taken.
\<close>

definition job_remove :: "job \<Rightarrow> state \<Rightarrow> outcome" where
  "job_remove j s =
     (if job_id j \<in> set (map job_id (scheduler s))
      then \<lparr>trace = [JobRemove (job_id j)], raised = None,
            final = s\<lparr>scheduler := filter (\<lambda>k. job_id k \<noteq> job_id j) (scheduler s)\<rparr>\<rparr>
      else \<lparr>trace = [JobRemove (job_id j)], raised = Some JobLookupError, final = s\<rparr>)"

definition add_job :: "job \<Rightarrow> state \<Rightarrow> outcome" where
  "add_job j s =
     (if job_id j \<in> set (map job_id (scheduler s))
      then \<lparr>trace = [JobAdd (job_id j) (job_args j)], raised = Some ConflictingIdError,
            final = s\<rparr>
      else \<lparr>trace = [JobAdd (job_id j) (job_args j)], raised = None,
            final = s\<lparr>scheduler := scheduler s @ [j]\<rparr>\<rparr>)"

text \<open>
  At the trigger time the scheduler runs every job it holds: \<open>send_countdown\<close> with the
  job's argument. (The scheduler runs its jobs independently of each other; as
  \<open>send_countdown\<close> raises nothing, running them as one block is the same.)
\<close>

definition fire :: "env \<Rightarrow> state \<Rightarrow> outcome" where
  "fire e s = run_steps (map (\<lambda>j. send_countdown e (job_args j)) (scheduler s)) s"

section \<open>handle\_deadline\<close>

record message =
  chat_id :: int
  msg_text :: str

definition already_passed_text :: str where
  "already_passed_text =
     [0x274C] @ ascii '' That date has already passed'' @ [92] @ ascii ''!'' @ [10] @
     ascii ''Set a future date like '' @ [96] @ ascii ''2025-12-31'' @ [96] @ ascii ''. ''"

definition invalid_format_text :: str where
  "invalid_format_text =
     [0x274C] @ ascii '' Invalid Format'' @ [92] @ ascii ''!'' @ [10] @ ascii ''Please use '' @
     [96] @ ascii ''YYYY-MM-DD'' @ [96] @ ascii '' (e.g., '' @ [96] @ ascii ''2025-12-31'' @
     [96] @ ascii '').''"

definition confirmation_message :: "date \<Rightarrow> int \<Rightarrow> str" where
  "confirmation_message deadline_date days_left =
     [0x2705] @ ascii '' Deadline Set'' @ [92] @ ascii ''! '' @ [0x2705, 10, 10, 0x1F5D3] @
     ascii '' Date: '' @ [96] @ str_date deadline_date @ [96, 10, 0x23F3] @
     ascii '' Days Left: '' @ [96] @ str_int days_left @ [96, 10, 10, 0x1F4E2] @
     ascii '' Daily reminders will arrive at 9:00 AM UTC'' @ [92] @ ascii ''! '' @ [0x23F0]"

text \<open>The job of a group: \<^verbatim>\<open>id=f"countdown_{group_id}"\<close>, \<^verbatim>\<open>args=[group_id]\<close>.\<close>

definition countdown_job :: "int \<Rightarrow> job" where
  "countdown_job group_id =
     \<lparr>job_id = ascii ''countdown_'' @ str_int group_id, job_args = group_id\<rparr>"

definition set_cache :: "int \<Rightarrow> date \<Rightarrow> state \<Rightarrow> outcome" where
  "set_cache group_id deadline_date s =
     \<lparr>trace = [CacheSet group_id deadline_date], raised = None,
      final = s\<lparr>deadlines := (deadlines s)(group_id \<mapsto> deadline_date)\<rparr>\<rparr>"

definition remove_old_job :: "int \<Rightarrow> state \<Rightarrow> outcome" where
  "remove_old_job group_id s =
     (case scheduled_jobs s group_id of
        None \<Rightarrow> \<lparr>trace = [], raised = None, final = s\<rparr>
      | Some j \<Rightarrow> job_remove j s)"

definition set_job_table :: "int \<Rightarrow> job \<Rightarrow> state \<Rightarrow> outcome" where
  "set_job_table group_id j s =
     \<lparr>trace = [JobTableSet group_id (job_id j)], raised = None,
      final = s\<lparr>scheduled_jobs := (scheduled_jobs s)(group_id \<mapsto> j)\<rparr>\<rparr>"

text \<open>
  \<open>handle_deadline\<close>. \<open>ValueError\<close> comes from the parser only and is answered with the
  format reply; a date before today is answered with the "already passed" reply; otherwise
  the statements of lines 191 to 221 run in order, and an exception of the database, the
  scheduler or the reply leaves the handler at that statement.
\<close>

definition handle_deadline :: "env \<Rightarrow> message \<Rightarrow> state \<Rightarrow> outcome" where
  "handle_deadline e m s =
     (let group_id = chat_id m in
      case strptime e (msg_text m) of
        None \<Rightarrow> reply_text e group_id invalid_format_text s
      | Some deadline_date \<Rightarrow>
          (let days_left = days_between deadline_date (today e) in
           if days_left < 0 then reply_text e group_id already_passed_text s
           else
             run_steps
               [set_cache group_id deadline_date,
                set_deadline_in_db e group_id deadline_date,
                remove_old_job group_id,
                add_job (countdown_job group_id),
                set_job_table group_id (countdown_job group_id),
                reply_text e group_id
                  (clean_markdown (confirmation_message deadline_date days_left)),
                send_countdown e group_id] s))"

section \<open>new\_chat\_member\<close>

record chat_member_updated =
  status :: str
  user_id :: int
  chat :: int

definition load_deadline :: "env \<Rightarrow> int \<Rightarrow> state \<Rightarrow> outcome" where
  "load_deadline e group_id s =
     (case get_deadline_from_db e group_id s of
        Inl err \<Rightarrow> \<lparr>trace = [Fetchrow group_id], raised = Some err, final = s\<rparr>
      | Inr None \<Rightarrow> \<lparr>trace = [Fetchrow group_id], raised = None, final = s\<rparr>
      | Inr (Some deadline_date) \<Rightarrow>
          \<lparr>trace = [Fetchrow group_id, CacheSet group_id deadline_date], raised = None,
           final = s\<lparr>deadlines := (deadlines s)(group_id \<mapsto> deadline_date)\<rparr>\<rparr>)"

text \<open>
  \<open>new_chat_member\<close>, on \<open>update.my_chat_member\<close> (\<open>None\<close> when the update carries none):
  when the bot itself became member or administrator, the stored deadline, if any, is put
  into the cache, and the welcome message is sent.
\<close>

definition new_chat_member :: "env \<Rightarrow> chat_member_updated option \<Rightarrow> state \<Rightarrow> outcome" where
  "new_chat_member e my_chat_member s =
     (case my_chat_member of
        None \<Rightarrow> \<lparr>trace = [], raised = None, final = s\<rparr>
      | Some chat_member \<Rightarrow>
          if status chat_member \<in> set [ascii ''member'', ascii ''administrator'']
             \<and> user_id chat_member = bot_id e
          then run_steps [load_deadline e (chat chat_member),
                          ask_for_deadline e (chat chat_member)] s
          else \<lparr>trace = [], raised = None, final = s\<rparr>)"

section \<open>main\<close>

text \<open>
  \<open>main\<close> up to the start of polling: the dictionaries are the empty ones of the module,
  the scheduler is started without jobs, \<open>create_db_pool\<close> connects and creates the table
  when it is missing (the rows are kept), and a failure to connect is logged and raised
  again.
\<close>

definition main :: "env \<Rightarrow> (int \<rightharpoonup> date) \<Rightarrow> outcome" where
  "main e rows =
     \<lparr>trace = (if db_ok e then [] else [LogError]),
      raised = (if db_ok e then None else Some StorageError),
      final = \<lparr>deadlines = Map.empty, scheduled_jobs = Map.empty, scheduler = [], db = rows\<rparr>\<rparr>"

text \<open>
  The states of a running process: the one \<open>main\<close> sets up, and those the two handlers
  lead to, whatever the update and the environment. A handler that raised leaves the
  state it had reached; the application logs the error and goes on.
\<close>

inductive reachable :: "state \<Rightarrow> bool" where
  start: "raised (main e rows) = None \<Longrightarrow> reachable (final (main e rows))"
| deadline: "reachable s \<Longrightarrow> reachable (final (handle_deadline e m s))"
| member: "reachable s \<Longrightarrow> reachable (final (new_chat_member e u s))"

section \<open>Updates\<close>

text \<open>
  \<open>setup_handlers\<close>: an update with \<open>my_chat_member\<close> goes to \<open>new_chat_member\<close>, a text
  message of a group that is no command goes to \<open>handle_deadline\<close>. The application
  handles the updates one after the other, each in the environment it meets, and carries
  on with the state a handler leaves, whether or not the handler raised.
\<close>

datatype update = TextMessage message | MyChatMember "chat_member_updated option"

definition dispatch :: "env \<Rightarrow> update \<Rightarrow> state \<Rightarrow> outcome" where
  "dispatch e u s =
     (case u of
        MyChatMember c \<Rightarrow> new_chat_member e c s
      | TextMessage m \<Rightarrow> handle_deadline e m s)"

fun run_updates :: "(env \<times> update) list \<Rightarrow> state \<Rightarrow> state" where
  "run_updates [] s = s"
| "run_updates ((e, u) # us) s = run_updates us (final (dispatch e u s))"

text \<open>
  The updates that reach the scheduling statements for a group: a text message of the
  group that parses to a date not before today and whose write to the database succeeds.
\<close>

definition schedules :: "int \<Rightarrow> env \<times> update \<Rightarrow> bool" where
  "schedules g eu =
     (case snd eu of
        MyChatMember c \<Rightarrow> False
      | TextMessage m \<Rightarrow>
          chat_id m = g \<and> db_ok (fst eu) \<and>
          (case strptime (fst eu) (msg_text m) of
             None \<Rightarrow> False
           | Some d \<Rightarrow> 0 \<le> days_between d (today (fst eu))))"

section \<open>Jobs and messages of a group\<close>

text \<open>The jobs the scheduler holds for a group, and the messages of a trace sent to it.\<close>

definition jobs_of :: "int \<Rightarrow> state \<Rightarrow> job list" where
  "jobs_of g s = filter (\<lambda>j. job_args j = g) (scheduler s)"

definition sent_to :: "int \<Rightarrow> event list \<Rightarrow> event list" where
  "sent_to g tr = filter (\<lambda>ev. case ev of SendMessage g' t \<Rightarrow> g' = g | _ \<Rightarrow> False) tr"

text \<open>
  The job table and the scheduler agree: the scheduler holds, once each, exactly the jobs
  of the groups in \<open>scheduled_jobs\<close>, and the table maps a group to its own job.
\<close>

definition jobs_consistent :: "state \<Rightarrow> bool" where
  "jobs_consistent s \<longleftrightarrow>
     distinct (scheduler s) \<and>
     set (scheduler s) = countdown_job ` dom (scheduled_jobs s) \<and>
     (\<forall>g \<in> dom (scheduled_jobs s). scheduled_jobs s g = Some (countdown_job g))"

text \<open>A group without a job, in a consistent state.\<close>

definition unscheduled :: "int \<Rightarrow> state \<Rightarrow> bool" where
  "unscheduled g s \<longleftrightarrow> jobs_consistent s \<and> jobs_of g s = [] \<and> scheduled_jobs s g = None"

text \<open>
  The state after lines 196 to 208 of \<open>handle_deadline\<close>: the job with the group's id is
  taken out of the scheduler, the new one is added and entered into the table.
\<close>

definition rescheduled :: "int \<Rightarrow> state \<Rightarrow> state" where
  "rescheduled g s =
     s\<lparr>scheduler := filter (\<lambda>k. job_id k \<noteq> job_id (countdown_job g)) (scheduler s)
                      @ [countdown_job g],
       scheduled_jobs := (scheduled_jobs s)(g \<mapsto> countdown_job g)\<rparr>"

section \<open>Sample inputs\<close>

text \<open>
  A calendar day, a process that just started on an empty table, one that started on a
  table with a row for group 7, and updates of that group.
\<close>

definition date_2099 :: date where
  "date_2099 = \<lparr>year = 2099, month = 1, day = 1\<rparr>"

definition date_2000 :: date where
  "date_2000 = \<lparr>year = 2000, month = 1, day = 1\<rparr>"

definition env_2025 :: env where
  "env_2025 = \<lparr>strptime = strptime_ymd, today = \<lparr>year = 2025, month = 1, day = 1\<rparr>,
                db_ok = True, reply_ok = True, send_ok = True, bot_id = 42\<rparr>"

definition env_db_down :: env where
  "env_db_down = env_2025\<lparr>db_ok := False\<rparr>"

definition msg_2099 :: message where
  "msg_2099 = \<lparr>chat_id = 7, msg_text = ascii ''2099-01-01''\<rparr>"

definition msg_2000 :: message where
  "msg_2000 = \<lparr>chat_id = 7, msg_text = ascii ''2000-01-01''\<rparr>"

definition msg_bad :: message where
  "msg_bad = \<lparr>chat_id = 7, msg_text = ascii ''not-a-date''\<rparr>"

definition join_7 :: chat_member_updated where
  "join_7 = \<lparr>status = ascii ''member'', user_id = 42, chat = 7\<rparr>"

definition msg_8 :: message where
  "msg_8 = \<lparr>chat_id = 8, msg_text = ascii ''2099-01-01''\<rparr>"

definition fresh :: state where
  "fresh = final (main env_2025 Map.empty)"

definition restarted :: state where
  "restarted = final (main env_2025 [7 \<mapsto> date_2099])"

text \<open>
  What may happen after that restart without giving group 7 a job: the bot joins the group,
  the group sends a text that is no date, a date in the past, a good date while the
  database is down, and another group sets its deadline.
\<close>

definition updates_after_restart :: "(env \<times> update) list" where
  "updates_after_restart =
     [(env_2025, MyChatMember (Some join_7)), (env_2025, TextMessage msg_bad),
      (env_2025, TextMessage msg_2000), (env_db_down, TextMessage msg_2099),
      (env_2025, TextMessage msg_8)]"

section \<open>Properties of clean\_markdown\<close>

lemma reserved_set:
  "set escape_chars =
     {95, 42, 91, 93, 40, 41, 126, 96, 62, 35, 43, 45, 61, 124, 123, 125, 46, 33}"
  by (simp add: escape_chars_def ascii_def)

lemma backslash_not_reserved: "backslash \<notin> set escape_chars"
  by (simp add: reserved_set backslash_def)

lemma re_sub_unreserved:
  "set x \<inter> set escape_chars = {} \<Longrightarrow> re_sub b x = x"
  by (induction x arbitrary: b) auto

lemma re_sub_no_backslash:
  "backslash \<notin> set x \<Longrightarrow>
   re_sub False x = concat (map (\<lambda>c. if c \<in> set escape_chars then [backslash, c] else [c]) x)"
  by (induction x) (auto simp: escape_char_def)

text \<open>
  After one pass every reserved character stands behind a backslash, so a second pass
  finds no match. The flag of the second pass may only be stronger than the first one's.
\<close>

lemma re_sub_idem:
  "(b \<longrightarrow> b') \<Longrightarrow> re_sub b' (re_sub b x) = re_sub b x"
proof (induction x arbitrary: b b')
  case Nil
  show ?case by simp
next
  case (Cons c cs)
  have step: "re_sub (c = backslash) (re_sub (c = backslash) cs) = re_sub (c = backslash) cs"
    by (rule Cons.IH) simp
  show ?case
  proof (cases "c \<in> set escape_chars")
    case True
    then have nb: "c \<noteq> backslash" using backslash_not_reserved by auto
    show ?thesis using True nb step Cons.prems backslash_not_reserved
      by (auto simp: escape_char_def)
  next
    case False
    then show ?thesis using step by simp
  qed
qed

text \<open>
  C8. One application of \<open>clean_markdown\<close> to a text without reserved characters returns
  the text unchanged; one application to a text that holds each reserved character exactly
  once and no backslash puts exactly one backslash in front of each reserved character and
  copies every other character.
\<close>

theorem clean_markdown_once:
  "(set x \<inter> set escape_chars = {} \<longrightarrow> clean_markdown x = x) \<and>
   ((\<forall>c \<in> set escape_chars. count_list x c = 1) \<and> backslash \<notin> set x \<longrightarrow>
      clean_markdown x =
        concat (map (\<lambda>c. if c \<in> set escape_chars then [backslash, c] else [c]) x))"
  by (simp add: clean_markdown_def re_sub_unreserved re_sub_no_backslash)

theorem clean_markdown_once_witness:
  "set (ascii ''Deadline 42'') \<inter> set escape_chars = {} \<and>
   clean_markdown (ascii ''Deadline 42'') = ascii ''Deadline 42'' \<and>
   list_all (\<lambda>c. count_list escape_chars c = 1) escape_chars \<and>
   backslash \<notin> set escape_chars \<and>
   clean_markdown escape_chars =
     [92, 95, 92, 42, 92, 91, 92, 93, 92, 40, 92, 41, 92, 126, 92, 96, 92, 62,
      92, 35, 92, 43, 92, 45, 92, 61, 92, 124, 92, 123, 92, 125, 92, 46, 92, 33]"
proof -
  have a: "set (ascii ''Deadline 42'') \<inter> set escape_chars = {}"
    by (simp add: reserved_set ascii_def)
  have b: "\<forall>c \<in> set escape_chars. count_list escape_chars c = 1"
    by (simp add: escape_chars_def ascii_def)
  have c: "concat (map (\<lambda>c. if c \<in> set escape_chars then [backslash, c] else [c]) escape_chars) =
     [92, 95, 92, 42, 92, 91, 92, 93, 92, 40, 92, 41, 92, 126, 92, 96, 92, 62,
      92, 35, 92, 43, 92, 45, 92, 61, 92, 124, 92, 123, 92, 125, 92, 46, 92, 33]"
    by (simp add: escape_chars_def ascii_def backslash_def)
  show ?thesis
    using a b c backslash_not_reserved
      clean_markdown_once [of "ascii ''Deadline 42''"] clean_markdown_once [of escape_chars]
    by (simp add: list_all_iff)
qed

text \<open>
  C9 (as the code has it). \<open>clean_markdown\<close> is idempotent: for every text, applying it
  twice gives the same result as applying it once. The look-behind of the pattern skips a
  reserved character that already stands behind a backslash.
\<close>

theorem clean_markdown_idempotent:
  "clean_markdown (clean_markdown x) = clean_markdown x"
  by (simp add: clean_markdown_def re_sub_idem)

text \<open>
  The statement that some text is changed by a second application is false for
  \<open>clean_markdown\<close>.
\<close>

theorem clean_markdown_twice_differs_counterexample:
  "\<not> (\<exists>x. clean_markdown (clean_markdown x) \<noteq> clean_markdown x)"
  by (simp add: clean_markdown_def re_sub_idem)

section \<open>Properties of format\_message\<close>

lemma re_sub_copy:
  "c \<notin> set escape_chars \<Longrightarrow> re_sub b (c # cs) = c # re_sub (c = backslash) cs"
  by simp

lemma today_head: "hd (clean_markdown text_today) = 0x1F6A8"
  by (simp add: clean_markdown_def text_today_def reserved_set)

lemma one_day_head: "hd (clean_markdown text_one_day) = 0x26A0"
  by (simp add: clean_markdown_def text_one_day_def reserved_set)

lemma le_3_head: "hd (clean_markdown (text_le_3 days)) = 0x1F514"
  by (simp add: clean_markdown_def text_le_3_def reserved_set)

text \<open>
  C2. For every non-negative day count the branch of \<open>format_message\<close> is: 0 gives the
  fixed "today is the deadline" text, 1 the fixed "one day left" text, 2 and 3 the
  "urgent" text, 4 to 7 the "high alert" text, 8 to 14 the "danger zone" text, 15 and more
  the "red alert" long-range text, each passed through \<open>clean_markdown\<close>; the two fixed
  texts differ.
\<close>

theorem format_message_bands:
  "0 \<le> days \<Longrightarrow>
   (days = 0 \<longrightarrow> format_message days = clean_markdown text_today) \<and>
   (days = 1 \<longrightarrow> format_message days = clean_markdown text_one_day) \<and>
   (days \<in> {2, 3} \<longrightarrow> format_message days = clean_markdown (text_le_3 days)) \<and>
   (days \<in> {4..7} \<longrightarrow> format_message days = clean_markdown (text_le_7 days)) \<and>
   (days \<in> {8..14} \<longrightarrow> format_message days = clean_markdown (text_le_14 days)) \<and>
   (15 \<le> days \<longrightarrow> format_message days = clean_markdown (text_else days)) \<and>
   format_message 0 \<noteq> format_message 1"
proof -
  assume "0 \<le> days"
  have "hd (format_message 0) \<noteq> hd (format_message 1)"
    by (simp add: format_message_def today_head one_day_head)
  then have "format_message 0 \<noteq> format_message 1" by auto
  then show ?thesis
    by (auto simp: format_message_def)
qed

theorem format_message_bands_witness:
  "format_message 0 = clean_markdown text_today \<and>
   format_message 1 = clean_markdown text_one_day \<and>
   format_message 3 = clean_markdown (text_le_3 3) \<and>
   format_message 4 = clean_markdown (text_le_7 4) \<and>
   format_message 14 = clean_markdown (text_le_14 14) \<and>
   format_message 15 = clean_markdown (text_else 15)"
  using format_message_bands [of 0] format_message_bands [of 1] format_message_bands [of 3]
    format_message_bands [of 4] format_message_bands [of 14] format_message_bands [of 15]
  by simp

text \<open>
  C10. For every strictly negative day count \<open>format_message\<close> takes the third branch:
  the "urgent" text of the counts 2 and 3, with the negative number written into it. It is
  not the "today" text, and \<open>format_message\<close> has no text of its own for an overdue
  deadline.
\<close>

theorem format_message_negative:
  "days < 0 \<Longrightarrow>
   format_message days = clean_markdown (text_le_3 days) \<and>
   format_message days \<noteq> format_message 0 \<and>
   text_le_3 days = [0x1F514, 32, 45] @ digits (nat (- days)) @ drop 3 (text_le_3 0)"
proof -
  assume neg: "days < 0"
  then have eq: "format_message days = clean_markdown (text_le_3 days)"
    by (simp add: format_message_def)
  have "hd (format_message days) \<noteq> hd (format_message 0)"
    by (simp add: eq le_3_head) (simp add: format_message_def today_head)
  then have ne: "format_message days \<noteq> format_message 0" by auto
  have d0: "digits 0 = [48]" by (simp add: digits.simps)
  have shape: "text_le_3 days = [0x1F514, 32, 45] @ digits (nat (- days)) @ drop 3 (text_le_3 0)"
    using neg by (simp add: text_le_3_def str_int_def ascii_def d0)
  show ?thesis using eq ne shape by simp
qed

theorem format_message_negative_witness:
  "(- 2 :: int) < 0 \<and> format_message (- 2) = clean_markdown (text_le_3 (- 2)) \<and>
   format_message (- 2) \<noteq> format_message 0 \<and>
   text_le_3 (- 2) = [0x1F514, 32, 45] @ digits (nat (- (- 2))) @ drop 3 (text_le_3 0)"
proof -
  have neg: "(- 2 :: int) < 0" by simp
  show ?thesis using neg format_message_negative [OF neg] by blast
qed

section \<open>Decimal job ids\<close>

lemma num_of_digits: "num_of (digits n) = n"
proof (induction n rule: digits.induct)
  case (1 n)
  show ?case
  proof (cases "n < 10")
    case True
    then show ?thesis by (simp add: digits.simps [of n] num_of_def)
  next
    case False
    with 1 have "num_of (digits (n div 10)) = n div 10" by simp
    with False show ?thesis by (simp add: digits.simps [of n] num_of_def)
  qed
qed

lemma digits_inj: "digits a = digits b \<Longrightarrow> a = b"
  by (metis num_of_digits)

lemma digits_ge: "c \<in> set (digits n) \<Longrightarrow> 48 \<le> c"
proof (induction n rule: digits.induct)
  case (1 n)
  then show ?case by (cases "n < 10") (auto simp: digits.simps [of n])
qed

lemma str_int_inj: "str_int a = str_int b \<Longrightarrow> a = b"
proof -
  assume eq: "str_int a = str_int b"
  have no_minus: "\<And>n m. 45 # digits n \<noteq> digits m"
  proof
    fix n m assume "45 # digits n = digits m"
    then have "45 \<in> set (digits m)" by (metis list.set_intros(1))
    then show False using digits_ge [of 45 m] by simp
  qed
  show ?thesis
  proof (cases "a < 0"; cases "b < 0")
    assume "a < 0" "b < 0"
    with eq have "nat (- a) = nat (- b)" by (auto simp: str_int_def dest: digits_inj)
    with \<open>a < 0\<close> \<open>b < 0\<close> show ?thesis by simp
  next
    assume "a < 0" "\<not> b < 0"
    with eq no_minus show ?thesis by (auto simp: str_int_def)
  next
    assume "\<not> a < 0" "b < 0"
    with eq no_minus show ?thesis by (auto simp: str_int_def dest: sym)
  next
    assume "\<not> a < 0" "\<not> b < 0"
    with eq have "nat a = nat b" by (auto simp: str_int_def dest: digits_inj)
    with \<open>\<not> a < 0\<close> \<open>\<not> b < 0\<close> show ?thesis by simp
  qed
qed

text \<open>Two groups never share a job id: the decimal form of an integer determines it.\<close>

lemma countdown_job_id_inj [simp]:
  "job_id (countdown_job a) = job_id (countdown_job b) \<longleftrightarrow> a = b"
  by (auto simp: countdown_job_def dest: str_int_inj)

lemma countdown_job_args [simp]: "job_args (countdown_job g) = g"
  by (simp add: countdown_job_def)

lemma countdown_job_inj [simp]: "countdown_job a = countdown_job b \<longleftrightarrow> a = b"
  by (metis countdown_job_args)

section \<open>The job table stays consistent\<close>

text \<open>The three scheduling statements, from a consistent state.\<close>

lemma id_in_scheduler:
  "jobs_consistent s \<Longrightarrow>
   job_id (countdown_job g) \<in> job_id ` set (scheduler s) \<longleftrightarrow> g \<in> dom (scheduled_jobs s)"
  by (auto simp: jobs_consistent_def)

lemma schedule_block:
  assumes "jobs_consistent s"
  shows "run_steps [remove_old_job g, add_job (countdown_job g),
                    set_job_table g (countdown_job g)] s =
         \<lparr>trace = (if g \<in> dom (scheduled_jobs s) then [JobRemove (job_id (countdown_job g))] else [])
                    @ [JobAdd (job_id (countdown_job g)) g,
                       JobTableSet g (job_id (countdown_job g))],
          raised = None, final = rescheduled g s\<rparr>"
proof (cases "scheduled_jobs s g")
  case None
  then have "g \<notin> dom (scheduled_jobs s)" by auto
  then have free: "job_id (countdown_job g) \<notin> job_id ` set (scheduler s)"
    using assms id_in_scheduler by blast
  then have same: "filter (\<lambda>k. job_id k \<noteq> job_id (countdown_job g)) (scheduler s) = scheduler s"
    by (intro filter_True ballI) (metis imageI)
  show ?thesis using None free same \<open>g \<notin> dom (scheduled_jobs s)\<close>
    by (simp add: remove_old_job_def add_job_def set_job_table_def rescheduled_def Let_def)
next
  case (Some j)
  then have "g \<in> dom (scheduled_jobs s)" by auto
  with assms have "scheduled_jobs s g = Some (countdown_job g)"
    unfolding jobs_consistent_def by blast
  with Some have j: "j = countdown_job g" by simp
  have there: "job_id (countdown_job g) \<in> job_id ` set (scheduler s)"
    using assms id_in_scheduler Some by blast
  have gone: "job_id (countdown_job g) \<notin>
      job_id ` {x \<in> set (scheduler s). job_id x \<noteq> job_id (countdown_job g)}"
    by auto
  show ?thesis using Some j there gone \<open>g \<in> dom (scheduled_jobs s)\<close>
    by (simp add: remove_old_job_def job_remove_def add_job_def set_job_table_def
        rescheduled_def Let_def)
qed

lemma rescheduled_consistent:
  assumes "jobs_consistent s"
  shows "jobs_consistent (rescheduled g s)"
proof -
  from assms have d: "distinct (scheduler s)"
    and st: "set (scheduler s) = countdown_job ` dom (scheduled_jobs s)"
    and tb: "\<forall>g \<in> dom (scheduled_jobs s). scheduled_jobs s g = Some (countdown_job g)"
    by (auto simp: jobs_consistent_def)
  have rest: "set (filter (\<lambda>k. job_id k \<noteq> job_id (countdown_job g)) (scheduler s))
              = countdown_job ` (dom (scheduled_jobs s) - {g})"
    using st by auto
  show ?thesis
    unfolding jobs_consistent_def rescheduled_def
    using d rest tb by (auto simp: image_iff)
qed

lemma jobs_of_rescheduled:
  assumes "jobs_consistent s"
  shows "jobs_of g (rescheduled g s) = [countdown_job g]"
proof -
  from assms have st: "set (scheduler s) = countdown_job ` dom (scheduled_jobs s)"
    by (auto simp: jobs_consistent_def)
  have "filter (\<lambda>j. job_args j = g)
          (filter (\<lambda>k. job_id k \<noteq> job_id (countdown_job g)) (scheduler s)) = []"
    using st by (auto simp: filter_empty_conv)
  then show ?thesis by (simp add: jobs_of_def rescheduled_def)
qed

lemma jobs_of_le_1:
  assumes "jobs_consistent s"
  shows "length (jobs_of g s) \<le> 1"
proof -
  from assms have d: "distinct (scheduler s)"
    and st: "set (scheduler s) = countdown_job ` dom (scheduled_jobs s)"
    by (auto simp: jobs_consistent_def)
  have "distinct (jobs_of g s)" using d by (simp add: jobs_of_def)
  then have "length (jobs_of g s) = card (set (jobs_of g s))"
    by (simp add: distinct_card)
  also have "set (jobs_of g s) \<subseteq> {countdown_job g}"
    using st by (auto simp: jobs_of_def)
  then have "card (set (jobs_of g s)) \<le> 1"
    by (metis card_mono finite.emptyI finite.insertI card.empty card_insert_if le_SucI
        One_nat_def empty_iff order_refl)
  finally show ?thesis .
qed

section \<open>Outcomes of handle\_deadline\<close>

lemma run_steps_append:
  "run_steps (fs @ gs) s =
     (let r = run_steps fs s in
      case raised r of
        Some e \<Rightarrow> r
      | None \<Rightarrow> (let r' = run_steps gs (final r) in r'\<lparr>trace := trace r @ trace r'\<rparr>))"
  by (induction fs arbitrary: s) (auto simp: Let_def split: option.splits)

lemma run_steps_append_ok:
  "run_steps fs s = \<lparr>trace = t, raised = None, final = s'\<rparr> \<Longrightarrow>
   run_steps (fs @ gs) s = (run_steps gs s')\<lparr>trace := t @ trace (run_steps gs s')\<rparr>"
  by (simp add: run_steps_append Let_def)

lemma main_consistent: "jobs_consistent (final (main e rows))"
  by (simp add: main_def jobs_consistent_def)

lemma load_deadline_jobs:
  "scheduler (final (load_deadline e g s)) = scheduler s \<and>
   scheduled_jobs (final (load_deadline e g s)) = scheduled_jobs s"
  by (simp add: load_deadline_def get_deadline_from_db_def split: option.splits)

lemma new_chat_member_jobs:
  "scheduler (final (new_chat_member e u s)) = scheduler s \<and>
   scheduled_jobs (final (new_chat_member e u s)) = scheduled_jobs s"
  by (simp add: new_chat_member_def ask_for_deadline_def Let_def load_deadline_jobs
      split: option.splits)

lemma new_chat_member_consistent:
  "jobs_consistent s \<Longrightarrow> jobs_consistent (final (new_chat_member e u s))"
  by (simp add: jobs_consistent_def new_chat_member_jobs)

text \<open>The accepted submission, statement by statement.\<close>

lemma handle_deadline_accepted:
  assumes cons: "jobs_consistent s"
    and parse: "strptime e (msg_text m) = Some d"
    and future: "0 \<le> days_between d (today e)"
    and dbok: "db_ok e"
  shows "handle_deadline e m s =
     \<lparr>trace = [CacheSet (chat_id m) d, Upsert (chat_id m) d]
               @ (if chat_id m \<in> dom (scheduled_jobs s)
                  then [JobRemove (job_id (countdown_job (chat_id m)))] else [])
               @ [JobAdd (job_id (countdown_job (chat_id m))) (chat_id m),
                  JobTableSet (chat_id m) (job_id (countdown_job (chat_id m))),
                  Reply (chat_id m)
                    (clean_markdown (confirmation_message d (days_between d (today e))))]
               @ (if reply_ok e
                  then SendMessage (chat_id m) (format_message (days_between d (today e)))
                         # (if send_ok e then [] else [LogError])
                  else []),
      raised = (if reply_ok e then None else Some TransportError),
      final = rescheduled (chat_id m)
                (s\<lparr>deadlines := (deadlines s)(chat_id m \<mapsto> d),
                   db := (db s)(chat_id m \<mapsto> d)\<rparr>)\<rparr>"
proof -
  let ?g = "chat_id m"
  let ?s2 = "s\<lparr>deadlines := (deadlines s)(?g \<mapsto> d), db := (db s)(?g \<mapsto> d)\<rparr>"
  have c2: "jobs_consistent ?s2" using cons by (simp add: jobs_consistent_def)
  have split: "[set_cache ?g d, set_deadline_in_db e ?g d, remove_old_job ?g,
           add_job (countdown_job ?g), set_job_table ?g (countdown_job ?g),
           reply_text e ?g (clean_markdown (confirmation_message d (days_between d (today e)))),
           send_countdown e ?g]
      = [set_cache ?g d, set_deadline_in_db e ?g d]
        @ [remove_old_job ?g, add_job (countdown_job ?g), set_job_table ?g (countdown_job ?g)]
        @ [reply_text e ?g (clean_markdown (confirmation_message d (days_between d (today e)))),
           send_countdown e ?g]"
    by simp
  have first: "run_steps [set_cache ?g d, set_deadline_in_db e ?g d] s =
      \<lparr>trace = [CacheSet ?g d, Upsert ?g d], raised = None, final = ?s2\<rparr>"
    using dbok by (simp add: set_cache_def set_deadline_in_db_def Let_def)
  have cached: "deadlines (rescheduled ?g ?s2) ?g = Some d"
    by (simp add: rescheduled_def)
  have last: "run_steps
       [reply_text e ?g (clean_markdown (confirmation_message d (days_between d (today e)))),
        send_countdown e ?g] (rescheduled ?g ?s2) =
      \<lparr>trace = Reply ?g (clean_markdown (confirmation_message d (days_between d (today e))))
                # (if reply_ok e
                   then SendMessage ?g (format_message (days_between d (today e)))
                          # (if send_ok e then [] else [LogError])
                   else []),
       raised = (if reply_ok e then None else Some TransportError),
       final = rescheduled ?g ?s2\<rparr>"
    using cached by (simp add: reply_text_def send_countdown_def Let_def)
  have "handle_deadline e m s = run_steps
          ([set_cache ?g d, set_deadline_in_db e ?g d]
           @ [remove_old_job ?g, add_job (countdown_job ?g), set_job_table ?g (countdown_job ?g)]
           @ [reply_text e ?g
                (clean_markdown (confirmation_message d (days_between d (today e)))),
              send_countdown e ?g]) s"
    using parse future unfolding split [symmetric]
    by (simp add: handle_deadline_def Let_def)
  also have "\<dots> = (run_steps
          ([remove_old_job ?g, add_job (countdown_job ?g), set_job_table ?g (countdown_job ?g)]
           @ [reply_text e ?g
                (clean_markdown (confirmation_message d (days_between d (today e)))),
              send_countdown e ?g]) ?s2)
        \<lparr>trace := [CacheSet ?g d, Upsert ?g d] @ trace (run_steps
          ([remove_old_job ?g, add_job (countdown_job ?g), set_job_table ?g (countdown_job ?g)]
           @ [reply_text e ?g
                (clean_markdown (confirmation_message d (days_between d (today e)))),
              send_countdown e ?g]) ?s2)\<rparr>"
    by (rule run_steps_append_ok [OF first])
  also have "run_steps
          ([remove_old_job ?g, add_job (countdown_job ?g), set_job_table ?g (countdown_job ?g)]
           @ [reply_text e ?g
                (clean_markdown (confirmation_message d (days_between d (today e)))),
              send_countdown e ?g]) ?s2
       = (run_steps
           [reply_text e ?g
                (clean_markdown (confirmation_message d (days_between d (today e)))),
            send_countdown e ?g] (rescheduled ?g ?s2))
         \<lparr>trace := ((if ?g \<in> dom (scheduled_jobs ?s2)
                      then [JobRemove (job_id (countdown_job ?g))] else [])
                     @ [JobAdd (job_id (countdown_job ?g)) ?g,
                        JobTableSet ?g (job_id (countdown_job ?g))])
                    @ trace (run_steps
           [reply_text e ?g
                (clean_markdown (confirmation_message d (days_between d (today e)))),
            send_countdown e ?g] (rescheduled ?g ?s2))\<rparr>"
    by (rule run_steps_append_ok [OF schedule_block [OF c2]])
  finally show ?thesis unfolding last by simp
qed

lemma handle_deadline_jobs_unchanged:
  assumes "strptime e (msg_text m) = None
           \<or> (\<exists>d. strptime e (msg_text m) = Some d \<and> days_between d (today e) < 0)
           \<or> \<not> db_ok e"
  shows "scheduler (final (handle_deadline e m s)) = scheduler s \<and>
         scheduled_jobs (final (handle_deadline e m s)) = scheduled_jobs s"
  using assms
  by (auto simp: handle_deadline_def reply_text_def set_cache_def set_deadline_in_db_def Let_def
      split: option.splits)

lemma handle_deadline_consistent:
  assumes "jobs_consistent s"
  shows "jobs_consistent (final (handle_deadline e m s))"
proof (cases "\<exists>d. strptime e (msg_text m) = Some d \<and> 0 \<le> days_between d (today e) \<and> db_ok e")
  case True
  then obtain d where "strptime e (msg_text m) = Some d" "0 \<le> days_between d (today e)" "db_ok e"
    by blast
  from handle_deadline_accepted [OF assms this]
  have "final (handle_deadline e m s) = rescheduled (chat_id m)
                (s\<lparr>deadlines := (deadlines s)(chat_id m \<mapsto> d),
                   db := (db s)(chat_id m \<mapsto> d)\<rparr>)"
    by simp
  moreover have "jobs_consistent (s\<lparr>deadlines := (deadlines s)(chat_id m \<mapsto> d),
                   db := (db s)(chat_id m \<mapsto> d)\<rparr>)"
    using assms by (simp add: jobs_consistent_def)
  ultimately show ?thesis by (simp add: rescheduled_consistent)
next
  case False
  then have "strptime e (msg_text m) = None
           \<or> (\<exists>d. strptime e (msg_text m) = Some d \<and> days_between d (today e) < 0)
           \<or> \<not> db_ok e"
    by (cases "strptime e (msg_text m)") (auto simp: not_le)
  from handle_deadline_jobs_unchanged [OF this] assms
  show ?thesis by (simp add: jobs_consistent_def)
qed

lemma reachable_consistent: "reachable s \<Longrightarrow> jobs_consistent s"
  by (induction rule: reachable.induct)
    (simp_all add: main_consistent handle_deadline_consistent new_chat_member_consistent)

section \<open>The sample inputs evaluated\<close>

lemma parse_2099: "strptime env_2025 (msg_text msg_2099) = Some date_2099"
  by (simp add: env_2025_def msg_2099_def date_2099_def ascii_def is_digit_def digit_val_def
      make_date_def days_in_month_def DAYS_IN_MONTH_def)

lemma parse_2000: "strptime env_2025 (msg_text msg_2000) = Some date_2000"
  by (simp add: env_2025_def msg_2000_def date_2000_def ascii_def is_digit_def digit_val_def
      make_date_def days_in_month_def DAYS_IN_MONTH_def)

lemma parse_bad: "strptime env_2025 (msg_text msg_bad) = None"
  by (simp add: env_2025_def msg_bad_def ascii_def is_digit_def)

lemma days_2099: "days_between date_2099 (today env_2025) = 27028"
  by (simp add: env_2025_def date_2099_def days_between_def toordinal_def days_before_year_def
      days_before_month_def DAYS_IN_MONTH_def is_leap_def)

lemma days_2000: "days_between date_2000 (today env_2025) = - 9132"
  by (simp add: env_2025_def date_2000_def days_between_def toordinal_def days_before_year_def
      days_before_month_def DAYS_IN_MONTH_def is_leap_def)

lemma reachable_fresh: "reachable fresh"
  unfolding fresh_def by (rule reachable.start) (simp add: main_def env_2025_def)

section \<open>Firing\<close>

lemma send_countdown_pure:
  "raised (send_countdown e g s) = None \<and> final (send_countdown e g s) = s"
  by (simp add: send_countdown_def split: option.splits)

lemma run_sends:
  "run_steps (map (\<lambda>j. send_countdown e (job_args j)) js) s =
     \<lparr>trace = concat (map (\<lambda>j. trace (send_countdown e (job_args j) s)) js),
      raised = None, final = s\<rparr>"
  by (induction js) (simp_all add: send_countdown_pure Let_def)

lemma sent_to_sends:
  "deadlines s g = Some d \<Longrightarrow>
   sent_to g (concat (map (\<lambda>j. trace (send_countdown e (job_args j) s)) js)) =
     map (\<lambda>j. SendMessage g (format_message (days_between d (today e))))
       (filter (\<lambda>j. job_args j = g) js)"
  by (induction js) (auto simp: sent_to_def send_countdown_def split: option.splits)

lemma sent_to_fire:
  "deadlines s g = Some d \<Longrightarrow>
   sent_to g (trace (fire e s)) =
     map (\<lambda>j. SendMessage g (format_message (days_between d (today e)))) (jobs_of g s)"
  by (simp add: fire_def run_sends sent_to_sends jobs_of_def)

section \<open>One job per group\<close>

text \<open>
  C3. In every state a running process can reach, the scheduler holds at most one job for
  any group \<open>h\<close>. When two deadline submissions of a group \<open>g\<close> are accepted in succession
  (each parses, is not in the past, and its write to the database succeeds), the group has
  exactly one job after the first; the second removes that job from the scheduler before
  it adds the new one; the group has exactly one job after the second; and a firing of the
  scheduler then sends exactly one countdown message to the group.
\<close>

theorem one_job_per_group:
  assumes reach: "reachable s"
    and g1: "chat_id m1 = g" and p1: "strptime e1 (msg_text m1) = Some d1"
    and f1: "0 \<le> days_between d1 (today e1)" and ok1: "db_ok e1"
    and g2: "chat_id m2 = g" and p2: "strptime e2 (msg_text m2) = Some d2"
    and f2: "0 \<le> days_between d2 (today e2)" and ok2: "db_ok e2"
  shows "length (jobs_of h s) \<le> 1 \<and>
     jobs_of g (final (handle_deadline e1 m1 s)) = [countdown_job g] \<and>
     take 5 (trace (handle_deadline e2 m2 (final (handle_deadline e1 m1 s)))) =
       [CacheSet g d2, Upsert g d2, JobRemove (job_id (countdown_job g)),
        JobAdd (job_id (countdown_job g)) g, JobTableSet g (job_id (countdown_job g))] \<and>
     jobs_of g (final (handle_deadline e2 m2 (final (handle_deadline e1 m1 s))))
       = [countdown_job g] \<and>
     sent_to g (trace (fire e (final (handle_deadline e2 m2 (final (handle_deadline e1 m1 s))))))
       = [SendMessage g (format_message (days_between d2 (today e)))]"
proof -
  let ?s1 = "final (handle_deadline e1 m1 s)"
  let ?r2 = "handle_deadline e2 m2 ?s1"
  have cons: "jobs_consistent s" using reach by (rule reachable_consistent)
  have a: "length (jobs_of h s) \<le> 1" using cons by (rule jobs_of_le_1)
  have c0: "jobs_consistent (s\<lparr>deadlines := (deadlines s)(g \<mapsto> d1), db := (db s)(g \<mapsto> d1)\<rparr>)"
    using cons by (simp add: jobs_consistent_def)
  have s1: "?s1 = rescheduled g (s\<lparr>deadlines := (deadlines s)(g \<mapsto> d1),
      db := (db s)(g \<mapsto> d1)\<rparr>)"
    using handle_deadline_accepted [OF cons p1 f1 ok1] g1 by simp
  have b: "jobs_of g ?s1 = [countdown_job g]"
    unfolding s1 using c0 by (rule jobs_of_rescheduled)
  have cons1: "jobs_consistent ?s1" using cons by (rule handle_deadline_consistent)
  have known: "g \<in> dom (scheduled_jobs ?s1)"
    unfolding s1 by (simp add: rescheduled_def)
  have c1: "jobs_consistent (?s1\<lparr>deadlines := (deadlines ?s1)(g \<mapsto> d2),
      db := (db ?s1)(g \<mapsto> d2)\<rparr>)"
    using cons1 by (simp add: jobs_consistent_def)
  note r2 = handle_deadline_accepted [OF cons1 p2 f2 ok2, unfolded g2]
  have c: "take 5 (trace ?r2) =
       [CacheSet g d2, Upsert g d2, JobRemove (job_id (countdown_job g)),
        JobAdd (job_id (countdown_job g)) g, JobTableSet g (job_id (countdown_job g))]"
    unfolding r2 using known by simp
  have s2: "final ?r2 = rescheduled g (?s1\<lparr>deadlines := (deadlines ?s1)(g \<mapsto> d2),
      db := (db ?s1)(g \<mapsto> d2)\<rparr>)"
    unfolding r2 by simp
  have d: "jobs_of g (final ?r2) = [countdown_job g]"
    unfolding s2 using c1 by (rule jobs_of_rescheduled)
  have cached: "deadlines (final ?r2) g = Some d2"
    unfolding s2 by (simp add: rescheduled_def)
  have f: "sent_to g (trace (fire e (final ?r2)))
       = [SendMessage g (format_message (days_between d2 (today e)))]"
    using sent_to_fire [OF cached] d by simp
  show ?thesis using a b c d f by blast
qed

theorem one_job_per_group_witness:
  "reachable fresh \<and> chat_id msg_2099 = 7 \<and>
   strptime env_2025 (msg_text msg_2099) = Some date_2099 \<and>
   0 \<le> days_between date_2099 (today env_2025) \<and> db_ok env_2025 \<and>
   length (jobs_of 7 fresh) \<le> 1 \<and>
   jobs_of 7 (final (handle_deadline env_2025 msg_2099 fresh)) = [countdown_job 7] \<and>
   take 5 (trace (handle_deadline env_2025 msg_2099
                   (final (handle_deadline env_2025 msg_2099 fresh)))) =
     [CacheSet 7 date_2099, Upsert 7 date_2099, JobRemove (job_id (countdown_job 7)),
      JobAdd (job_id (countdown_job 7)) 7, JobTableSet 7 (job_id (countdown_job 7))] \<and>
   jobs_of 7 (final (handle_deadline env_2025 msg_2099
                      (final (handle_deadline env_2025 msg_2099 fresh))))
     = [countdown_job 7] \<and>
   sent_to 7 (trace (fire env_2025 (final (handle_deadline env_2025 msg_2099
                      (final (handle_deadline env_2025 msg_2099 fresh))))))
     = [SendMessage 7 (format_message (days_between date_2099 (today env_2025)))]"
proof -
  have g: "chat_id msg_2099 = 7" by (simp add: msg_2099_def)
  have f: "0 \<le> days_between date_2099 (today env_2025)" by (simp add: days_2099)
  have ok: "db_ok env_2025" by (simp add: env_2025_def)
  show ?thesis
    using one_job_per_group [where h = 7 and e = env_2025,
        OF reachable_fresh g parse_2099 f ok g parse_2099 f ok]
      reachable_fresh g parse_2099 f ok
    by blast
qed

section \<open>Accepted submissions\<close>

lemma str_date_2099: "str_date date_2099 = ascii ''2099-01-01''"
  by (simp add: str_date_def date_2099_def zfill_def str_int_def digits.simps ascii_def)

lemma str_int_27028: "str_int 27028 = ascii ''27028''"
  by (simp add: str_int_def digits.simps ascii_def)

text \<open>
  \<open>re_sub\<close> on a text in two parts: the second part starts with the flag the first part's
  last character gives.
\<close>

lemma re_sub_append:
  "re_sub f (xs @ ys) = re_sub f xs @ re_sub (if xs = [] then f else last xs = backslash) ys"
  by (induction xs arbitrary: f) auto

lemma re_sub_append_plain:
  "xs \<noteq> [] \<Longrightarrow> last xs \<noteq> backslash \<Longrightarrow> re_sub f (xs @ ys) = re_sub f xs @ re_sub False ys"
  by (simp add: re_sub_append)

lemma digits_range: "c \<in> set (digits n) \<Longrightarrow> 48 \<le> c \<and> c \<le> 57"
proof (induction n rule: digits.induct)
  case (1 n)
  then show ?case by (cases "n < 10") (auto simp: digits.simps [of n])
qed

lemma digits_nonempty: "digits n \<noteq> []"
  by (cases "n < 10") (simp_all add: digits.simps [of n])

lemma last_digits: "last (digits n) \<noteq> backslash"
  using digits_range [of "last (digits n)" n] digits_nonempty [of n]
  by (auto simp: backslash_def)

lemma str_int_nonempty: "str_int i \<noteq> []"
  by (simp add: str_int_def digits_nonempty)

lemma last_str_int: "last (str_int i) \<noteq> backslash"
  by (simp add: str_int_def digits_nonempty last_digits)

lemma str_date_end: "str_date d \<noteq> [] \<and> last (str_date d) \<noteq> backslash"
  by (simp add: str_date_def zfill_def str_int_nonempty last_str_int)

lemma clean_markdown_count:
  "0 \<le> n \<Longrightarrow> re_sub f (str_int n) = str_int n"
proof (rule re_sub_unreserved)
  assume "0 \<le> n"
  then have "\<forall>c \<in> set (str_int n). 48 \<le> c \<and> c \<le> 57"
    using digits_range by (auto simp: str_int_def)
  then show "set (str_int n) \<inter> set escape_chars = {}"
    unfolding reserved_set by fastforce
qed

text \<open>
  The confirmation as it is sent: the escaped date and the number of days left stand in it,
  in this order.
\<close>

lemma confirmation_reply_states:
  assumes "0 \<le> n"
  shows "\<exists>a b c. clean_markdown (confirmation_message d n)
            = a @ clean_markdown (str_date d) @ b @ str_int n @ c"
proof -
  let ?H = "[0x2705] @ ascii '' Deadline Set'' @ [92] @ ascii ''! '' @
     [0x2705, 10, 10, 0x1F5D3] @ ascii '' Date: '' @ [96]"
  let ?M = "[96, 10, 0x23F3] @ ascii '' Days Left: '' @ [96]"
  let ?T = "[96, 10, 10, 0x1F4E2] @
     ascii '' Daily reminders will arrive at 9:00 AM UTC'' @ [92] @ ascii ''! '' @ [0x23F0]"
  have shape: "confirmation_message d n = ?H @ str_date d @ ?M @ str_int n @ ?T"
    by (simp add: confirmation_message_def)
  have h: "?H \<noteq> []" "last ?H \<noteq> backslash" by (simp_all add: backslash_def)
  have m: "?M \<noteq> []" "last ?M \<noteq> backslash" by (simp_all add: backslash_def)
  have 1: "re_sub False (?H @ str_date d @ ?M @ str_int n @ ?T)
      = re_sub False ?H @ re_sub False (str_date d @ ?M @ str_int n @ ?T)"
    using h by (rule re_sub_append_plain)
  have 2: "re_sub False (str_date d @ ?M @ str_int n @ ?T)
      = re_sub False (str_date d) @ re_sub False (?M @ str_int n @ ?T)"
    using str_date_end [of d] by (intro re_sub_append_plain) auto
  have 3: "re_sub False (?M @ str_int n @ ?T)
      = re_sub False ?M @ re_sub False (str_int n @ ?T)"
    using m by (rule re_sub_append_plain)
  have 4: "re_sub False (str_int n @ ?T) = re_sub False (str_int n) @ re_sub False ?T"
    using str_int_nonempty last_str_int by (rule re_sub_append_plain)
  have "clean_markdown (confirmation_message d n)
      = re_sub False ?H @ clean_markdown (str_date d) @ re_sub False ?M @ str_int n
          @ re_sub False ?T"
    unfolding clean_markdown_def shape 1 2 3 4
    using assms by (simp add: clean_markdown_count)
  then show ?thesis by blast
qed

lemma reply_date_2099:
  "clean_markdown (str_date date_2099) = ascii ''2099'' @ [92] @ ascii ''-01'' @ [92] @ ascii ''-01''"
  by (simp add: str_date_2099 clean_markdown_def ascii_def reserved_set escape_char_def
      backslash_def)

text \<open>
  C1. In a state a running process can reach, a submission whose text the parser accepts
  as a date that is not before today, with the database write and the reply succeeding,
  does exactly this, in this order: it sets the cache entry of the group, upserts the row,
  removes the group's old job if it has one and adds the new job (entering it into the job
  table), replies with the confirmation message built from the date and the number of
  days left, and sends one countdown message for that number of days. Nothing is raised;
  afterwards the cache and the table hold the date and the group has exactly one job.
  The text of the reply contains the date in its ISO form as \<open>clean_markdown\<close> escapes
  it (a backslash before each hyphen, which the markup shows as the plain date) and,
  after it, the decimal number of days left.
\<close>

theorem handle_deadline_valid_submission:
  assumes reach: "reachable s"
    and parse: "strptime e (msg_text m) = Some d"
    and future: "0 \<le> days_between d (today e)"
    and dbok: "db_ok e" and replyok: "reply_ok e"
  shows "trace (handle_deadline e m s) =
           [CacheSet (chat_id m) d, Upsert (chat_id m) d]
           @ (if chat_id m \<in> dom (scheduled_jobs s)
              then [JobRemove (job_id (countdown_job (chat_id m)))] else [])
           @ [JobAdd (job_id (countdown_job (chat_id m))) (chat_id m),
              JobTableSet (chat_id m) (job_id (countdown_job (chat_id m))),
              Reply (chat_id m)
                (clean_markdown (confirmation_message d (days_between d (today e)))),
              SendMessage (chat_id m) (format_message (days_between d (today e)))]
           @ (if send_ok e then [] else [LogError]) \<and>
         raised (handle_deadline e m s) = None \<and>
         deadlines (final (handle_deadline e m s)) (chat_id m) = Some d \<and>
         db (final (handle_deadline e m s)) (chat_id m) = Some d \<and>
         jobs_of (chat_id m) (final (handle_deadline e m s)) = [countdown_job (chat_id m)] \<and>
         scheduled_jobs (final (handle_deadline e m s)) (chat_id m)
           = Some (countdown_job (chat_id m)) \<and>
         length (sent_to (chat_id m) (trace (handle_deadline e m s))) = 1 \<and>
         (\<exists>a b c. clean_markdown (confirmation_message d (days_between d (today e)))
            = a @ clean_markdown (str_date d) @ b @ str_int (days_between d (today e)) @ c)"
proof -
  let ?g = "chat_id m"
  let ?s2 = "s\<lparr>deadlines := (deadlines s)(?g \<mapsto> d), db := (db s)(?g \<mapsto> d)\<rparr>"
  have cons: "jobs_consistent s" using reach by (rule reachable_consistent)
  have c2: "jobs_consistent ?s2" using cons by (simp add: jobs_consistent_def)
  note r = handle_deadline_accepted [OF cons parse future dbok]
  have t: "trace (handle_deadline e m s) =
           [CacheSet ?g d, Upsert ?g d]
           @ (if ?g \<in> dom (scheduled_jobs s)
              then [JobRemove (job_id (countdown_job ?g))] else [])
           @ [JobAdd (job_id (countdown_job ?g)) ?g,
              JobTableSet ?g (job_id (countdown_job ?g)),
              Reply ?g (clean_markdown (confirmation_message d (days_between d (today e)))),
              SendMessage ?g (format_message (days_between d (today e)))]
           @ (if send_ok e then [] else [LogError])"
    unfolding r using replyok by simp
  have x: "raised (handle_deadline e m s) = None" unfolding r using replyok by simp
  have f: "final (handle_deadline e m s) = rescheduled ?g ?s2" unfolding r by simp
  have a: "deadlines (final (handle_deadline e m s)) ?g = Some d"
    unfolding f by (simp add: rescheduled_def)
  have b: "db (final (handle_deadline e m s)) ?g = Some d"
    unfolding f by (simp add: rescheduled_def)
  have j: "jobs_of ?g (final (handle_deadline e m s)) = [countdown_job ?g]"
    unfolding f using c2 by (rule jobs_of_rescheduled)
  have k: "scheduled_jobs (final (handle_deadline e m s)) ?g = Some (countdown_job ?g)"
    unfolding f by (simp add: rescheduled_def)
  have n: "length (sent_to ?g (trace (handle_deadline e m s))) = 1"
    unfolding t by (simp add: sent_to_def)
  note st = confirmation_reply_states [OF future, of d]
  show ?thesis using t x a b j k n st by blast
qed

theorem handle_deadline_valid_submission_witness:
  "reachable fresh \<and> strptime env_2025 (msg_text msg_2099) = Some date_2099 \<and>
   0 \<le> days_between date_2099 (today env_2025) \<and> db_ok env_2025 \<and> reply_ok env_2025 \<and>
   trace (handle_deadline env_2025 msg_2099 fresh) =
     [CacheSet 7 date_2099, Upsert 7 date_2099,
      JobAdd (ascii ''countdown_7'') 7, JobTableSet 7 (ascii ''countdown_7''),
      Reply 7 (clean_markdown (confirmation_message date_2099 27028)),
      SendMessage 7 (format_message 27028)] \<and>
   raised (handle_deadline env_2025 msg_2099 fresh) = None \<and>
   deadlines (final (handle_deadline env_2025 msg_2099 fresh)) 7 = Some date_2099 \<and>
   db (final (handle_deadline env_2025 msg_2099 fresh)) 7 = Some date_2099 \<and>
   jobs_of 7 (final (handle_deadline env_2025 msg_2099 fresh)) = [countdown_job 7] \<and>
   (\<exists>a b c. clean_markdown (confirmation_message date_2099 27028)
      = a @ clean_markdown (str_date date_2099) @ b @ str_int 27028 @ c) \<and>
   clean_markdown (str_date date_2099)
     = ascii ''2099'' @ [92] @ ascii ''-01'' @ [92] @ ascii ''-01'' \<and>
   str_int 27028 = ascii ''27028''"
proof -
  have f: "0 \<le> days_between date_2099 (today env_2025)" by (simp add: days_2099)
  have ok: "db_ok env_2025" "reply_ok env_2025" "send_ok env_2025"
    by (simp_all add: env_2025_def)
  have g: "chat_id msg_2099 = 7" by (simp add: msg_2099_def)
  have none: "scheduled_jobs fresh = Map.empty" by (simp add: fresh_def main_def)
  have d7: "digits 7 = [55]" by (simp add: digits.simps)
  have id: "job_id (countdown_job 7) = ascii ''countdown_7''"
    by (simp add: countdown_job_def str_int_def d7 ascii_def)
  show ?thesis
    using handle_deadline_valid_submission [OF reachable_fresh parse_2099 f ok(1) ok(2)]
      reachable_fresh parse_2099 f ok
    by (simp add: g none id days_2099 reply_date_2099 str_int_27028)
qed

section \<open>Rejected submissions\<close>

lemma reply_texts_differ: "invalid_format_text \<noteq> already_passed_text"
proof -
  have "invalid_format_text ! 2 \<noteq> already_passed_text ! 2"
    by (simp add: invalid_format_text_def already_passed_text_def ascii_def)
  then show ?thesis by auto
qed

lemma handle_deadline_malformed:
  "strptime e (msg_text m) = None \<Longrightarrow>
   handle_deadline e m s =
     \<lparr>trace = [Reply (chat_id m) invalid_format_text],
      raised = (if reply_ok e then None else Some TransportError), final = s\<rparr>"
  by (simp add: handle_deadline_def reply_text_def)

lemma handle_deadline_past:
  "strptime e (msg_text m) = Some d \<Longrightarrow> days_between d (today e) < 0 \<Longrightarrow>
   handle_deadline e m s =
     \<lparr>trace = [Reply (chat_id m) already_passed_text],
      raised = (if reply_ok e then None else Some TransportError), final = s\<rparr>"
  by (simp add: handle_deadline_def reply_text_def Let_def)

text \<open>
  C4. A submission whose text the parser rejects gets one reply, the format error, and a
  submission whose date is before today gets one reply, the "already passed" message; the
  two messages differ. In both cases this single reply is all the handler does, and the
  state it returns is the state it was given: cache, database rows, job table and
  scheduler are unchanged (also when the reply itself fails).
\<close>

theorem handle_deadline_rejects:
  "(strptime e (msg_text m) = None \<longrightarrow>
      handle_deadline e m s =
        \<lparr>trace = [Reply (chat_id m) invalid_format_text],
         raised = (if reply_ok e then None else Some TransportError), final = s\<rparr>) \<and>
   (strptime e (msg_text m) = Some d \<and> days_between d (today e) < 0 \<longrightarrow>
      handle_deadline e m s =
        \<lparr>trace = [Reply (chat_id m) already_passed_text],
         raised = (if reply_ok e then None else Some TransportError), final = s\<rparr>) \<and>
   invalid_format_text \<noteq> already_passed_text"
  using handle_deadline_malformed [of e m s] handle_deadline_past [of e m d s]
    reply_texts_differ
  by blast

theorem handle_deadline_rejects_witness:
  "strptime env_2025 (msg_text msg_bad) = None \<and>
   handle_deadline env_2025 msg_bad fresh =
     \<lparr>trace = [Reply 7 invalid_format_text], raised = None, final = fresh\<rparr> \<and>
   strptime env_2025 (msg_text msg_2000) = Some date_2000 \<and>
   days_between date_2000 (today env_2025) < 0 \<and>
   handle_deadline env_2025 msg_2000 fresh =
     \<lparr>trace = [Reply 7 already_passed_text], raised = None, final = fresh\<rparr>"
proof -
  have past: "days_between date_2000 (today env_2025) < 0" by (simp add: days_2000)
  have ok: "reply_ok env_2025" by (simp add: env_2025_def)
  have g: "chat_id msg_bad = 7" "chat_id msg_2000 = 7" by (simp_all add: msg_bad_def msg_2000_def)
  show ?thesis
    using handle_deadline_rejects [of env_2025 msg_bad fresh date_2000]
      handle_deadline_rejects [of env_2025 msg_2000 fresh date_2000]
      parse_bad parse_2000 past ok g
    by simp
qed

section \<open>A failing database write\<close>

lemma handle_deadline_db_down:
  "strptime e (msg_text m) = Some d \<Longrightarrow> 0 \<le> days_between d (today e) \<Longrightarrow> \<not> db_ok e \<Longrightarrow>
   handle_deadline e m s =
     \<lparr>trace = [CacheSet (chat_id m) d, Upsert (chat_id m) d], raised = Some StorageError,
      final = s\<lparr>deadlines := (deadlines s)(chat_id m \<mapsto> d)\<rparr>\<rparr>"
  by (simp add: handle_deadline_def set_cache_def set_deadline_in_db_def Let_def)

text \<open>
  C7 (as the code has it). When the write to the database fails for a submission that was
  accepted, the handler stops with the storage error right after the cache assignment:
  there is one attempt to write and no other action (no reply, no countdown, no change
  of the jobs), the cache entry of the group holds the new date, and the rows of the
  database are the old ones. The cache assignment is not undone and the write is not
  tried again.
\<close>

theorem handle_deadline_storage_failure:
  assumes "strptime e (msg_text m) = Some d" and "0 \<le> days_between d (today e)"
    and "\<not> db_ok e"
  shows "handle_deadline e m s =
           \<lparr>trace = [CacheSet (chat_id m) d, Upsert (chat_id m) d],
            raised = Some StorageError,
            final = s\<lparr>deadlines := (deadlines s)(chat_id m \<mapsto> d)\<rparr>\<rparr> \<and>
         deadlines (final (handle_deadline e m s)) (chat_id m) = Some d \<and>
         db (final (handle_deadline e m s)) = db s \<and>
         scheduler (final (handle_deadline e m s)) = scheduler s \<and>
         scheduled_jobs (final (handle_deadline e m s)) = scheduled_jobs s"
  using handle_deadline_db_down [OF assms, of s] by simp

theorem handle_deadline_storage_failure_witness:
  "strptime env_db_down (msg_text msg_2099) = Some date_2099 \<and>
   0 \<le> days_between date_2099 (today env_db_down) \<and>
   \<not> db_ok env_db_down \<and>
   handle_deadline env_db_down msg_2099 fresh =
     \<lparr>trace = [CacheSet 7 date_2099, Upsert 7 date_2099], raised = Some StorageError,
      final = fresh\<lparr>deadlines := (deadlines fresh)(7 \<mapsto> date_2099)\<rparr>\<rparr>"
proof -
  have p: "strptime env_db_down (msg_text msg_2099) = Some date_2099"
    using parse_2099 by (simp add: env_db_down_def env_2025_def)
  have f: "0 \<le> days_between date_2099 (today env_db_down)"
    using days_2099 by (simp add: env_db_down_def env_2025_def)
  have down: "\<not> db_ok env_db_down" by (simp add: env_db_down_def)
  have g: "chat_id msg_2099 = 7" by (simp add: msg_2099_def)
  show ?thesis
    using handle_deadline_storage_failure [OF p f down, of fresh] p f down g by simp
qed

text \<open>
  A group without a row: after the failed write the cache holds the submitted date and the
  database still has no row for the group.
\<close>

theorem persist_failure_counterexample:
  "raised (handle_deadline env_db_down msg_2099 fresh) = Some StorageError \<and>
   trace (handle_deadline env_db_down msg_2099 fresh)
     = [CacheSet 7 date_2099, Upsert 7 date_2099] \<and>
   deadlines (final (handle_deadline env_db_down msg_2099 fresh)) 7 = Some date_2099 \<and>
   db (final (handle_deadline env_db_down msg_2099 fresh)) 7 = None"
proof -
  have p: "strptime env_db_down (msg_text msg_2099) = Some date_2099"
    using parse_2099 by (simp add: env_db_down_def env_2025_def)
  have f: "0 \<le> days_between date_2099 (today env_db_down)"
    using days_2099 by (simp add: env_db_down_def env_2025_def)
  have down: "\<not> db_ok env_db_down" by (simp add: env_db_down_def)
  have g: "chat_id msg_2099 = 7" by (simp add: msg_2099_def)
  have empty: "db fresh 7 = None" by (simp add: fresh_def main_def)
  show ?thesis
    using handle_deadline_db_down [OF p f down, of fresh] g empty by simp
qed

section \<open>Start of the process\<close>

lemma main_state:
  "final (main e rows) =
     \<lparr>deadlines = Map.empty, scheduled_jobs = Map.empty, scheduler = [], db = rows\<rparr>"
  by (simp add: main_def)

lemma fire_without_jobs: "scheduler s = [] \<Longrightarrow> trace (fire e s) = []"
  by (simp add: fire_def)

lemma send_countdown_other:
  "g' \<noteq> g \<Longrightarrow> sent_to g (trace (send_countdown e g' s)) = []"
  by (simp add: sent_to_def send_countdown_def split: option.splits)

lemma sent_to_fire_none:
  assumes "jobs_of g s = []"
  shows "sent_to g (trace (fire e s)) = []"
proof -
  have other: "\<forall>j \<in> set (scheduler s). job_args j \<noteq> g"
    using assms by (auto simp: jobs_of_def filter_empty_conv)
  have "\<And>js. \<forall>j \<in> set js. job_args j \<noteq> g \<Longrightarrow>
      sent_to g (concat (map (\<lambda>j. trace (send_countdown e (job_args j) s)) js)) = []"
  proof -
    fix js show "\<forall>j \<in> set js. job_args j \<noteq> g \<Longrightarrow>
      sent_to g (concat (map (\<lambda>j. trace (send_countdown e (job_args j) s)) js)) = []"
    proof (induction js)
      case Nil
      show ?case by (simp add: sent_to_def)
    next
      case (Cons j js)
      then have "sent_to g (trace (send_countdown e (job_args j) s)) = []"
        by (simp add: send_countdown_other)
      with Cons show ?case by (simp add: sent_to_def)
    qed
  qed
  with other show ?thesis by (simp add: fire_def run_sends)
qed

lemma jobs_of_rescheduled_other:
  assumes "jobs_of g s = []" and "g' \<noteq> g"
  shows "jobs_of g (rescheduled g' s) = []"
  using assms by (simp add: jobs_of_def rescheduled_def filter_empty_conv)

text \<open>No handler gives a group a job, except an accepted and stored submission of its own.\<close>

lemma dispatch_unscheduled:
  assumes u: "unscheduled g s" and no: "\<not> schedules g (e, u)"
  shows "unscheduled g (final (dispatch e u s))"
proof (cases u)
  case (MyChatMember c)
  then show ?thesis
    using u new_chat_member_jobs [of e c s] new_chat_member_consistent [of s e c]
    by (simp add: dispatch_def unscheduled_def jobs_of_def)
next
  case (TextMessage m)
  have cons: "jobs_consistent s" using u by (simp add: unscheduled_def)
  have cons': "jobs_consistent (final (handle_deadline e m s))"
    using cons by (rule handle_deadline_consistent)
  show ?thesis
  proof (cases "\<exists>d. strptime e (msg_text m) = Some d \<and> 0 \<le> days_between d (today e) \<and> db_ok e")
    case True
    then obtain d where p: "strptime e (msg_text m) = Some d"
      and f: "0 \<le> days_between d (today e)" and ok: "db_ok e" by blast
    with no TextMessage have ne: "chat_id m \<noteq> g" by (simp add: schedules_def)
    let ?s2 = "s\<lparr>deadlines := (deadlines s)(chat_id m \<mapsto> d), db := (db s)(chat_id m \<mapsto> d)\<rparr>"
    have fin: "final (handle_deadline e m s) = rescheduled (chat_id m) ?s2"
      using handle_deadline_accepted [OF cons p f ok] by simp
    have "jobs_of g ?s2 = []" using u by (simp add: unscheduled_def jobs_of_def)
    then have a: "jobs_of g (final (handle_deadline e m s)) = []"
      unfolding fin using ne by (rule jobs_of_rescheduled_other)
    have b: "scheduled_jobs (final (handle_deadline e m s)) g = None"
      unfolding fin using u ne by (simp add: rescheduled_def unscheduled_def)
    show ?thesis using TextMessage cons' a b by (simp add: dispatch_def unscheduled_def)
  next
    case False
    then have "strptime e (msg_text m) = None
           \<or> (\<exists>d. strptime e (msg_text m) = Some d \<and> days_between d (today e) < 0)
           \<or> \<not> db_ok e"
      by (cases "strptime e (msg_text m)") (auto simp: not_le)
    from handle_deadline_jobs_unchanged [OF this, of s] u cons' TextMessage
    show ?thesis by (simp add: dispatch_def unscheduled_def jobs_of_def)
  qed
qed

lemma run_updates_unscheduled:
  "unscheduled g s \<Longrightarrow> list_all (\<lambda>eu. \<not> schedules g eu) us \<Longrightarrow>
   unscheduled g (run_updates us s)"
proof (induction us arbitrary: s)
  case Nil
  then show ?case by simp
next
  case (Cons eu us)
  obtain e u where eu: "eu = (e, u)" by (cases eu)
  with Cons.prems have "unscheduled g (final (dispatch e u s))"
    by (simp add: dispatch_unscheduled)
  with Cons eu show ?case by simp
qed

lemma main_unscheduled: "unscheduled g (final (main e rows))"
  by (simp add: unscheduled_def main_consistent) (simp add: main_def jobs_of_def)

lemma quiet_after_restart: "list_all (\<lambda>eu. \<not> schedules 7 eu) updates_after_restart"
proof -
  have p: "strptime env_db_down = strptime env_2025" "today env_db_down = today env_2025"
    "\<not> db_ok env_db_down"
    by (simp_all add: env_db_down_def)
  have g: "chat_id msg_8 = 8" by (simp add: msg_8_def)
  show ?thesis
    by (simp add: updates_after_restart_def schedules_def parse_bad parse_2000 days_2000 p g)
qed

text \<open>
  C5 (as the code has it). Whatever rows the database holds, \<open>main\<close> starts with an empty
  cache, an empty job table and a scheduler without jobs, and leaves the rows as they are;
  it raises exactly when the database cannot be reached. No group has a job after the
  start, and a firing of the scheduler sends nothing. It stays so for a group \<open>g\<close> through
  every sequence of updates none of which is a submission of \<open>g\<close> that parses to a date not
  before today and is stored: joins, rejected submissions, submissions whose write fails
  and submissions of other groups leave \<open>g\<close> without a job, without an entry in the job
  table and without a countdown message when the scheduler fires.
\<close>


theorem main_installs_no_job:
  "final (main e rows) =
     \<lparr>deadlines = Map.empty, scheduled_jobs = Map.empty, scheduler = [], db = rows\<rparr> \<and>
   raised (main e rows) = (if db_ok e then None else Some StorageError) \<and>
   jobs_of g (final (main e rows)) = [] \<and>
   trace (fire e' (final (main e rows))) = [] \<and>
   (list_all (\<lambda>eu. \<not> schedules g eu) us \<longrightarrow>
      jobs_of g (run_updates us (final (main e rows))) = [] \<and>
      scheduled_jobs (run_updates us (final (main e rows))) g = None \<and>
      sent_to g (trace (fire e' (run_updates us (final (main e rows))))) = [])"
proof -
  have a: "final (main e rows) =
     \<lparr>deadlines = Map.empty, scheduled_jobs = Map.empty, scheduler = [], db = rows\<rparr>"
    by (rule main_state)
  have b: "raised (main e rows) = (if db_ok e then None else Some StorageError)"
    by (simp add: main_def)
  have c: "jobs_of g (final (main e rows)) = []" by (simp add: main_state jobs_of_def)
  have d: "trace (fire e' (final (main e rows))) = []"
    by (simp add: main_state fire_without_jobs)
  have r: "list_all (\<lambda>eu. \<not> schedules g eu) us \<longrightarrow>
      jobs_of g (run_updates us (final (main e rows))) = [] \<and>
      scheduled_jobs (run_updates us (final (main e rows))) g = None \<and>
      sent_to g (trace (fire e' (run_updates us (final (main e rows))))) = []"
  proof
    assume "list_all (\<lambda>eu. \<not> schedules g eu) us"
    with main_unscheduled have u: "unscheduled g (run_updates us (final (main e rows)))"
      by (rule run_updates_unscheduled)
    then have "jobs_of g (run_updates us (final (main e rows))) = []"
      by (simp add: unscheduled_def)
    with u sent_to_fire_none show "jobs_of g (run_updates us (final (main e rows))) = [] \<and>
      scheduled_jobs (run_updates us (final (main e rows))) g = None \<and>
      sent_to g (trace (fire e' (run_updates us (final (main e rows))))) = []"
      by (simp add: unscheduled_def)
  qed
  show ?thesis using a b c d r by blast
qed

theorem main_installs_no_job_witness:
  "restarted = \<lparr>deadlines = Map.empty, scheduled_jobs = Map.empty, scheduler = [],
                 db = [7 \<mapsto> date_2099]\<rparr> \<and>
   raised (main env_2025 [7 \<mapsto> date_2099]) = None \<and>
   jobs_of 7 restarted = [] \<and>
   trace (fire env_2025 restarted) = [] \<and>
   list_all (\<lambda>eu. \<not> schedules 7 eu) updates_after_restart \<and>
   jobs_of 7 (run_updates updates_after_restart restarted) = [] \<and>
   scheduled_jobs (run_updates updates_after_restart restarted) 7 = None \<and>
   sent_to 7 (trace (fire env_2025 (run_updates updates_after_restart restarted))) = []"
proof -
  have ok: "db_ok env_2025" by (simp add: env_2025_def)
  note t = main_installs_no_job [of env_2025 "[7 \<mapsto> date_2099]" 7 env_2025
      updates_after_restart]
  from t have "raised (main env_2025 [7 \<mapsto> date_2099])
      = (if db_ok env_2025 then None else Some StorageError)"
    by blast
  with ok have r: "raised (main env_2025 [7 \<mapsto> date_2099]) = None" by simp
  show ?thesis unfolding restarted_def using t r quiet_after_restart [unfolded restarted_def]
    by blast
qed

text \<open>
  A start on a table with a row for group 7: the row is there, and the group has no job.
\<close>

theorem rehydration_counterexample:
  "raised (main env_2025 [7 \<mapsto> date_2099]) = None \<and>
   db (final (main env_2025 [7 \<mapsto> date_2099])) 7 = Some date_2099 \<and>
   jobs_of 7 (final (main env_2025 [7 \<mapsto> date_2099])) = [] \<and>
   scheduled_jobs (final (main env_2025 [7 \<mapsto> date_2099])) 7 = None"
  by (simp add: main_state jobs_of_def) (simp add: main_def env_2025_def)

section \<open>Joining a group\<close>

lemma new_chat_member_outcome:
  assumes "status u \<in> set [ascii ''member'', ascii ''administrator'']"
    and "user_id u = bot_id e" and "db_ok e"
  shows "new_chat_member e (Some u) s =
     \<lparr>trace = [Fetchrow (chat u)]
               @ (case db s (chat u) of None \<Rightarrow> [] | Some d \<Rightarrow> [CacheSet (chat u) d])
               @ [SendMessage (chat u) (clean_markdown welcome_text)]
               @ (if send_ok e then [] else [LogError]),
      raised = None,
      final = (case db s (chat u) of
                 None \<Rightarrow> s
               | Some d \<Rightarrow> s\<lparr>deadlines := (deadlines s)(chat u \<mapsto> d)\<rparr>)\<rparr>"
  using assms
  by (simp add: new_chat_member_def load_deadline_def get_deadline_from_db_def
      ask_for_deadline_def Let_def split: option.splits)

text \<open>
  C6 (as the code has it). When the bot itself became member or administrator of a group
  and the database answers: a stored deadline of the group is put into the cache, and
  without one the cache is left alone; in both cases the welcome message with the expected
  date format is sent; the scheduler and the job table are never touched, so no job is
  installed.
\<close>

theorem new_chat_member_joined:
  assumes "status u \<in> set [ascii ''member'', ascii ''administrator'']"
    and "user_id u = bot_id e" and "db_ok e"
  shows "new_chat_member e (Some u) s =
     \<lparr>trace = [Fetchrow (chat u)]
               @ (case db s (chat u) of None \<Rightarrow> [] | Some d \<Rightarrow> [CacheSet (chat u) d])
               @ [SendMessage (chat u) (clean_markdown welcome_text)]
               @ (if send_ok e then [] else [LogError]),
      raised = None,
      final = (case db s (chat u) of
                 None \<Rightarrow> s
               | Some d \<Rightarrow> s\<lparr>deadlines := (deadlines s)(chat u \<mapsto> d)\<rparr>)\<rparr> \<and>
     scheduler (final (new_chat_member e (Some u) s)) = scheduler s \<and>
     scheduled_jobs (final (new_chat_member e (Some u) s)) = scheduled_jobs s"
  using new_chat_member_outcome [OF assms, of s] new_chat_member_jobs [of e "Some u" s]
  by simp

theorem new_chat_member_joined_witness:
  "status join_7 \<in> set [ascii ''member'', ascii ''administrator''] \<and>
   user_id join_7 = bot_id env_2025 \<and> db_ok env_2025 \<and>
   new_chat_member env_2025 (Some join_7) restarted =
     \<lparr>trace = [Fetchrow 7, CacheSet 7 date_2099, SendMessage 7 (clean_markdown welcome_text)],
      raised = None,
      final = restarted\<lparr>deadlines := (deadlines restarted)(7 \<mapsto> date_2099)\<rparr>\<rparr> \<and>
   new_chat_member env_2025 (Some join_7) fresh =
     \<lparr>trace = [Fetchrow 7, SendMessage 7 (clean_markdown welcome_text)],
      raised = None, final = fresh\<rparr>"
proof -
  have a: "status join_7 \<in> set [ascii ''member'', ascii ''administrator'']"
    by (simp add: join_7_def)
  have b: "user_id join_7 = bot_id env_2025" by (simp add: join_7_def env_2025_def)
  have c: "db_ok env_2025" "send_ok env_2025" by (simp_all add: env_2025_def)
  have g: "chat join_7 = 7" by (simp add: join_7_def)
  have r: "db restarted 7 = Some date_2099" by (simp add: restarted_def main_def)
  have f: "db fresh 7 = None" by (simp add: fresh_def main_def)
  show ?thesis
    using new_chat_member_joined [OF a b c(1), of restarted]
      new_chat_member_joined [OF a b c(1), of fresh] a b c
    by (simp add: g r f)
qed

text \<open>
  Joining a group whose deadline is stored, right after a start: the welcome message is
  sent all the same, and the group still has no job.
\<close>

theorem rejoin_counterexample:
  "db restarted 7 = Some date_2099 \<and>
   trace (new_chat_member env_2025 (Some join_7) restarted) =
     [Fetchrow 7, CacheSet 7 date_2099, SendMessage 7 (clean_markdown welcome_text)] \<and>
   jobs_of 7 (final (new_chat_member env_2025 (Some join_7) restarted)) = []"
proof -
  have a: "status join_7 \<in> set [ascii ''member'', ascii ''administrator'']"
    by (simp add: join_7_def)
  have b: "user_id join_7 = bot_id env_2025" by (simp add: join_7_def env_2025_def)
  have c: "db_ok env_2025" "send_ok env_2025" by (simp_all add: env_2025_def)
  have g: "chat join_7 = 7" by (simp add: join_7_def)
  have r: "db restarted 7 = Some date_2099" by (simp add: restarted_def main_def)
  have n: "scheduler restarted = []" by (simp add: restarted_def main_def)
  show ?thesis
    using new_chat_member_outcome [OF a b c(1), of restarted]
      new_chat_member_jobs [of env_2025 "Some join_7" restarted] c
    by (simp add: g r n jobs_of_def)
qed

end
